theory Spec2Isabelle
  imports Complex_Main
begin

section \<open>The salary-prediction dashboard (\<^verbatim>\<open>src/dashboard/app1.py\<close>)\<close>

text \<open>
  The dashboard is one Streamlit script that is re-executed from top to bottom on every
  user interaction. The embedding follows the script: the two cached loaders with the
  process-wide caches as explicit state, the two sliders and the button as the state of
  the user interface, the prediction, the formatted texts, and the sequence of elements
  the script emits. Calls into libraries whose result no statement depends on (the base
  series of a scatter plot, \<^verbatim>\<open>describe()\<close>) are kept as constructors that record the call.
  Pictographs in the literal labels of the source are left out of the strings.
\<close>

subsection \<open>Floating-point values\<close>

text \<open>
  The salary values, the prediction and the statistics are numpy \<^verbatim>\<open>float64\<close> scalars.
  A value is a finite number, an infinity or NaN. Finite arithmetic is exact here (no
  rounding to 53 bits, no overflow, no signed zero); the special values follow IEEE 754
  as numpy applies it: a division by zero does not raise, it gives an infinity or NaN.
\<close>

datatype pyfloat = Fin real | PInf | NInf | NaN

fun fsub :: "pyfloat \<Rightarrow> pyfloat \<Rightarrow> pyfloat" where
  "fsub (Fin a) (Fin b) = Fin (a - b)"
| "fsub NaN _ = NaN"
| "fsub _ NaN = NaN"
| "fsub PInf PInf = NaN"
| "fsub NInf NInf = NaN"
| "fsub PInf _ = PInf"
| "fsub NInf _ = NInf"
| "fsub (Fin a) PInf = NInf"
| "fsub (Fin a) NInf = PInf"

fun fdiv :: "pyfloat \<Rightarrow> pyfloat \<Rightarrow> pyfloat" where
  "fdiv (Fin a) (Fin b) =
     (if b = 0 then (if a = 0 then NaN else if 0 < a then PInf else NInf)
      else Fin (a / b))"
| "fdiv NaN _ = NaN"
| "fdiv _ NaN = NaN"
| "fdiv (Fin a) _ = Fin 0"
| "fdiv PInf (Fin b) = (if 0 \<le> b then PInf else NInf)"
| "fdiv NInf (Fin b) = (if 0 \<le> b then NInf else PInf)"
| "fdiv _ _ = NaN"

fun fmul :: "pyfloat \<Rightarrow> pyfloat \<Rightarrow> pyfloat" where
  "fmul (Fin a) (Fin b) = Fin (a * b)"
| "fmul NaN _ = NaN"
| "fmul _ NaN = NaN"
| "fmul PInf (Fin b) = (if b = 0 then NaN else if 0 < b then PInf else NInf)"
| "fmul NInf (Fin b) = (if b = 0 then NaN else if 0 < b then NInf else PInf)"
| "fmul (Fin a) PInf = (if a = 0 then NaN else if 0 < a then PInf else NInf)"
| "fmul (Fin a) NInf = (if a = 0 then NaN else if 0 < a then NInf else PInf)"
| "fmul PInf PInf = PInf"
| "fmul NInf NInf = PInf"
| "fmul PInf NInf = NInf"
| "fmul NInf PInf = NInf"

fun is_finite :: "pyfloat \<Rightarrow> bool" where
  "is_finite (Fin _) = True"
| "is_finite _ = False"

subsection \<open>Python's format specifications \<^verbatim>\<open>,.2f\<close>, \<^verbatim>\<open>+.1f\<close> and \<^verbatim>\<open>,\<close>\<close>

text \<open>
  The \<^verbatim>\<open>f\<close> presentation rounds the value to the requested number of decimals, ties to
  the even neighbour, and writes the integer digits, a point and the decimals. The sign
  is the sign of the value, also when the rounded digits are all zero. The \<^verbatim>\<open>,\<close> option
  groups the integer digits in threes from the right; the \<^verbatim>\<open>+\<close> option writes a plus sign
  for a value that is not negative. Infinities and NaN are written \<^verbatim>\<open>inf\<close> and \<^verbatim>\<open>nan\<close>.
\<close>

definition round_half_even :: "real \<Rightarrow> int" where
  "round_half_even x =
     (let f = \<lfloor>x\<rfloor>; d = x - of_int f
      in if d < 1 / 2 then f else if 1 / 2 < d then f + 1
         else if even f then f else f + 1)"

definition digit_char :: "nat \<Rightarrow> char" where
  "digit_char d = ''0123456789'' ! d"

fun digits10 :: "nat \<Rightarrow> string" where
  "digits10 n =
     (if n < 10 then [digit_char n] else digits10 (n div 10) @ [digit_char (n mod 10)])"

declare digits10.simps [simp del]

fun commas_rev :: "string \<Rightarrow> string" where
  "commas_rev (a # b # c # d # rest) = a # b # c # CHR '','' # commas_rev (d # rest)"
| "commas_rev ds = ds"

definition thousands :: "string \<Rightarrow> string" where
  "thousands ds = rev (commas_rev (rev ds))"

definition zero_pad :: "nat \<Rightarrow> string \<Rightarrow> string" where
  "zero_pad w ds = replicate (w - length ds) CHR ''0'' @ ds"

definition sign_text :: "bool \<Rightarrow> bool \<Rightarrow> string" where
  "sign_text show_plus negative = (if negative then ''-'' else if show_plus then ''+'' else '''')"

fun format_f :: "bool \<Rightarrow> bool \<Rightarrow> nat \<Rightarrow> pyfloat \<Rightarrow> string" where
  "format_f show_plus comma prec (Fin x) =
     (let n = nat (round_half_even (\<bar>x\<bar> * 10 ^ prec));
          ip = digits10 (n div 10 ^ prec);
          fp = zero_pad prec (digits10 (n mod 10 ^ prec))
      in sign_text show_plus (x < 0) @ (if comma then thousands ip else ip) @
         (if prec = 0 then '''' else ''.'' @ fp))"
| "format_f show_plus comma prec PInf = sign_text show_plus False @ ''inf''"
| "format_f show_plus comma prec NInf = sign_text show_plus True @ ''inf''"
| "format_f show_plus comma prec NaN = sign_text show_plus False @ ''nan''"

definition format_int_grouped :: "int \<Rightarrow> string" where
  "format_int_grouped n = sign_text False (n < 0) @ thousands (digits10 (nat \<bar>n\<bar>))"

text \<open>\<^verbatim>\<open>f"${x:,.2f}"\<close>, the form of every currency text of the script.\<close>

definition currency :: "pyfloat \<Rightarrow> string" where
  "currency x = ''$'' @ format_f False True 2 x"

text \<open>\<^verbatim>\<open>f"{x:+.1f}%"\<close>, the form of the ``Vs Mean'' metric.\<close>

definition percent_text :: "pyfloat \<Rightarrow> string" where
  "percent_text x = format_f True False 1 x @ ''%''"

subsection \<open>The dataset and its statistics\<close>

text \<open>
  \<^verbatim>\<open>salary_dataset.xlsx\<close> read by pandas: a table with the columns \<^verbatim>\<open>Age\<close>,
  \<^verbatim>\<open>Year of Experience\<close> and \<^verbatim>\<open>Current Salary\<close>. A cell of the spreadsheet may be
  empty (\<open>None\<close>, pandas' missing value).
\<close>

record row =
  Age :: "real option"
  Year_of_Experience :: "real option"
  Current_Salary :: "real option"

type_synonym dataset = "row list"

text \<open>\<^verbatim>\<open>data['Current Salary']\<close>\<close>

definition salary_column :: "dataset \<Rightarrow> real option list" where
  "salary_column data = map Current_Salary data"

text \<open>The cells that hold a value: pandas' reductions skip the missing ones.\<close>

definition present :: "real option list \<Rightarrow> real list" where
  "present col = concat (map (\<lambda>c. case c of None \<Rightarrow> [] | Some v \<Rightarrow> [v]) col)"

text \<open>\<^verbatim>\<open>Series.mean()\<close> and \<^verbatim>\<open>Series.max()\<close>: NaN when no cell holds a value.\<close>

definition series_mean :: "real option list \<Rightarrow> pyfloat" where
  "series_mean col =
     (let vs = present col
      in if vs = [] then NaN else Fin (sum_list vs / real (length vs)))"

definition series_max :: "real option list \<Rightarrow> pyfloat" where
  "series_max col =
     (case present col of [] \<Rightarrow> NaN | v # vs \<Rightarrow> Fin (fold max vs v))"

text \<open>\<^verbatim>\<open>data.isnull().sum().sum()\<close>\<close>

definition null_count :: "dataset \<Rightarrow> nat" where
  "null_count data =
     length (filter (\<lambda>c. c = None)
       (map Age data @ map Year_of_Experience data @ map Current_Salary data))"

text \<open>
  The frames handed to \<^verbatim>\<open>st.dataframe\<close>: \<^verbatim>\<open>data.head(10)\<close> is computed,
  \<^verbatim>\<open>data.describe()\<close> is recorded as the call.
\<close>

datatype frame = Rows dataset | Describe dataset

definition head :: "nat \<Rightarrow> dataset \<Rightarrow> frame" where
  "head n data = Rows (take n data)"

subsection \<open>The model and the prediction\<close>

text \<open>
  An exception carries its message. The loaded model is whatever object the pickle holds;
  the script uses only its \<^verbatim>\<open>predict\<close>, which takes the rows of an array and returns an
  array of values or raises.
\<close>

datatype exn = Exn string

type_synonym model = "int list list \<Rightarrow> exn + pyfloat list"

text \<open>
  Lines 110 and 111:
  \<^verbatim>\<open>input_data = np.array([[age, experience]]); prediction = model.predict(input_data)[0]\<close>.
  Indexing an empty result raises IndexError.
\<close>

definition input_data :: "int \<Rightarrow> int \<Rightarrow> int list list" where
  "input_data age experience = [[age, experience]]"

definition prediction :: "model \<Rightarrow> int \<Rightarrow> int \<Rightarrow> exn + pyfloat" where
  "prediction m age experience =
     (case m (input_data age experience) of
        Inl e \<Rightarrow> Inl e
      | Inr ys \<Rightarrow> (case ys of [] \<Rightarrow> Inl (Exn ''IndexError'') | y # _ \<Rightarrow> Inr y))"

text \<open>
  Modelled from the spec: the fitted regressor stored in \<^verbatim>\<open>gradient_boosting_model.pkl\<close>
  is a binary artifact that is not among the sources. The spec describes it as
  ``an opaque, pre-fitted regression function mapping a 2-dimensional numeric feature
  vector [age, experience] to a scalar salary prediction'': one finite value for each row
  of two features, and an error for a row of another shape.
\<close>

definition fitted_regressor :: "(int \<Rightarrow> int \<Rightarrow> real) \<Rightarrow> model" where
  "fitted_regressor f X =
     (if list_all (\<lambda>r. length r = 2) X
      then Inr (map (\<lambda>r. Fin (f (r ! 0) (r ! 1))) X)
      else Inl (Exn ''ValueError''))"

text \<open>Line 188: the deviation of the prediction from the dataset mean, in percent.\<close>

definition diff_percent :: "pyfloat \<Rightarrow> dataset \<Rightarrow> pyfloat" where
  "diff_percent pred data =
     fmul (fdiv (fsub pred (series_mean (salary_column data)))
                (series_mean (salary_column data)))
          (Fin 100)"

subsection \<open>The cached loaders (lines 50 to 63)\<close>

text \<open>
  What the two library readers do for a path: raise, or return the deserialised content.
\<close>

record environment =
  joblib_load :: "string \<Rightarrow> exn + model"
  read_excel :: "string \<Rightarrow> exn + dataset"

text \<open>
  The state of the server process: the entries of Streamlit's two caches for the two
  decorated functions, the next fresh object identity, and the files read so far.
  An object is its identity with its content.
  \<^verbatim>\<open>st.cache_resource\<close> keeps the returned object itself and hands that object to every
  caller. \<^verbatim>\<open>st.cache_data\<close> keeps the return value serialised; a call that finds the entry
  gets a new object deserialised from it. A call that raises stores nothing.
\<close>

type_synonym ref = nat

record process =
  resource_cache :: "(ref \<times> model) option"
  data_cache :: "dataset option"
  next_ref :: ref
  file_reads :: "string list"

definition model_path :: string where
  "model_path = ''gradient_boosting_model.pkl''"

definition data_path :: string where
  "data_path = ''salary_dataset.xlsx''"

definition load_model :: "environment \<Rightarrow> process \<Rightarrow> (exn + ref \<times> model) \<times> process" where
  "load_model env p =
     (case resource_cache p of
        Some obj \<Rightarrow> (Inr obj, p)
      | None \<Rightarrow>
          (case joblib_load env model_path of
             Inl e \<Rightarrow> (Inl e, p\<lparr>file_reads := file_reads p @ [model_path]\<rparr>)
           | Inr m \<Rightarrow>
               (Inr (next_ref p, m),
                p\<lparr>resource_cache := Some (next_ref p, m),
                  next_ref := Suc (next_ref p),
                  file_reads := file_reads p @ [model_path]\<rparr>)))"

definition load_data :: "environment \<Rightarrow> process \<Rightarrow> (exn + ref \<times> dataset) \<times> process" where
  "load_data env p =
     (case data_cache p of
        Some d \<Rightarrow> (Inr (next_ref p, d), p\<lparr>next_ref := Suc (next_ref p)\<rparr>)
      | None \<Rightarrow>
          (case read_excel env data_path of
             Inl e \<Rightarrow> (Inl e, p\<lparr>file_reads := file_reads p @ [data_path]\<rparr>)
           | Inr d \<Rightarrow>
               (Inr (next_ref p, d),
                p\<lparr>data_cache := Some d,
                  next_ref := Suc (next_ref p),
                  file_reads := file_reads p @ [data_path]\<rparr>)))"

text \<open>The body of the \<^verbatim>\<open>try\<close>: the first exception leaves it.\<close>

definition load_resources ::
  "environment \<Rightarrow> process \<Rightarrow> (exn + (ref \<times> model) \<times> (ref \<times> dataset)) \<times> process" where
  "load_resources env p =
     (case load_model env p of
        (Inl e, p1) \<Rightarrow> (Inl e, p1)
      | (Inr m, p1) \<Rightarrow>
          (case load_data env p1 of
             (Inl e, p2) \<Rightarrow> (Inl e, p2)
           | (Inr d, p2) \<Rightarrow> (Inr (m, d), p2)))"

subsection \<open>The elements of the page\<close>

text \<open>
  One element for each call that draws. The long literal markup blocks (style sheet,
  header, introduction, footer) are constructors; the prediction card is its three
  interpolated values. The layout containers (columns, sidebar, tabs) are flattened: the
  elements come in the order of the calls.
\<close>

record figure =
  fig_data :: dataset
  fig_x :: string
  fig_y :: string
  fig_hover :: "string list"
  fig_title :: string
  overlay_x :: int
  overlay_y :: pyfloat
  overlay_name :: string
  xaxis_title :: string
  yaxis_title :: string
  fig_height :: nat

datatype metric_value = Text string | Number int | Dtype_List dataset

datatype element =
    Style_Block
  | Header_Block
  | Intro_Block
  | Footer_Block
  | Error_Box string
  | Markdown string
  | Slider string int int int
  | Button string
  | Metric string metric_value
  | Prediction_Card string int int
  | Subheader string
  | Plotly_Chart figure
  | Expander string
  | Tabs "string list"
  | Dataframe frame

subsection \<open>The input controls (lines 85 to 103)\<close>

text \<open>
  The state of the three widgets as the browser reports it: the value a slider was moved
  to, if it was moved, and whether the button was pressed for this run.
\<close>

record ui =
  age_slider :: "int option"
  experience_slider :: "int option"
  predict_clicked :: bool

text \<open>
  \<^verbatim>\<open>st.slider(label, min_value, max_value, value)\<close> draws the control and returns the
  reported value, or \<^verbatim>\<open>value\<close> for a slider that was not moved.
\<close>

definition st_slider :: "string \<Rightarrow> int \<Rightarrow> int \<Rightarrow> int \<Rightarrow> int option \<Rightarrow> element \<times> int" where
  "st_slider label min_value max_value val reported =
     (Slider label min_value max_value val,
      case reported of None \<Rightarrow> val | Some v \<Rightarrow> v)"


definition age_control :: "ui \<Rightarrow> element \<times> int" where
  "age_control u = st_slider ''**Age**'' 18 65 30 (age_slider u)"

definition experience_control :: "ui \<Rightarrow> element \<times> int" where
  "experience_control u = st_slider ''**Years of Experience**'' 0 50 5 (experience_slider u)"

definition sidebar :: "ui \<Rightarrow> dataset \<Rightarrow> element list" where
  "sidebar u data =
     [Markdown ''## Employee Details'',
      Markdown ''### Basic Information'',
      fst (age_control u),
      fst (experience_control u),
      Markdown ''---'',
      Markdown ''### Model Information'',
      Metric ''Training Samples'' (Text (format_int_grouped (int (length data)))),
      Metric ''Features'' (Text ''2 (Age, Experience)''),
      Markdown ''---'',
      Button ''Predict Salary'']"

subsection \<open>The main content (lines 108 to 214)\<close>

text \<open>Lines 133 to 151 and 157 to 174: the two scatter plots with the overlaid point.\<close>

definition fig1 :: "dataset \<Rightarrow> int \<Rightarrow> pyfloat \<Rightarrow> figure" where
  "fig1 data experience pred =
     \<lparr>fig_data = data, fig_x = ''Year of Experience'', fig_y = ''Current Salary'',
      fig_hover = [''Age''], fig_title = ''Salary vs Experience'',
      overlay_x = experience, overlay_y = pred, overlay_name = ''Predicted Employee'',
      xaxis_title = ''Years of Experience'', yaxis_title = ''Salary ($)'',
      fig_height = 400\<rparr>"

definition fig2 :: "dataset \<Rightarrow> int \<Rightarrow> pyfloat \<Rightarrow> figure" where
  "fig2 data age pred =
     \<lparr>fig_data = data, fig_x = ''Age'', fig_y = ''Current Salary'',
      fig_hover = [''Year of Experience''], fig_title = ''Salary vs Age'',
      overlay_x = age, overlay_y = pred, overlay_name = ''Predicted Employee'',
      xaxis_title = ''Age'', yaxis_title = ''Salary ($)'',
      fig_height = 400\<rparr>"

text \<open>Lines 113 to 189, what the branch draws once \<^verbatim>\<open>prediction\<close> is bound.\<close>

definition prediction_section :: "dataset \<Rightarrow> int \<Rightarrow> int \<Rightarrow> pyfloat \<Rightarrow> element list" where
  "prediction_section data age experience pred =
     [Prediction_Card (currency pred) age experience,
      Markdown ''---'',
      Subheader ''Salary Distribution'',
      Plotly_Chart (fig1 data experience pred),
      Subheader ''Age vs Salary'',
      Plotly_Chart (fig2 data age pred),
      Subheader ''Quick Statistics'',
      Metric ''Dataset Mean Salary'' (Text (currency (series_mean (salary_column data)))),
      Metric ''Dataset Max Salary'' (Text (currency (series_max (salary_column data)))),
      Metric ''Predicted Salary'' (Text (currency pred)),
      Metric ''Vs Mean'' (Text (percent_text (diff_percent pred data)))]"

text \<open>Lines 194 to 214. The table has its three columns.\<close>

definition dataset_overview :: "dataset \<Rightarrow> element list" where
  "dataset_overview data =
     [Markdown ''---'',
      Expander ''Dataset Overview'',
      Tabs [''Preview'', ''Statistics'', ''Data Info''],
      Subheader ''First 10 Records'',
      Dataframe (head 10 data),
      Subheader ''Statistical Summary'',
      Dataframe (Describe data),
      Subheader ''Dataset Information'',
      Metric ''Total Records'' (Number (int (length data))),
      Metric ''Columns'' (Number 3),
      Metric ''Data Types'' (Dtype_List data),
      Metric ''Missing Values'' (Number (int (null_count data)))]"

text \<open>
  How a run of the script ends: at its last line, at \<^verbatim>\<open>st.stop()\<close>, or with an exception
  that nothing catches. A run also records the arguments of every call of
  \<^verbatim>\<open>model.predict\<close> it made.
\<close>

datatype status = Completed | Stopped | Uncaught exn

record rendering =
  elements :: "element list"
  status :: status
  model_calls :: "int list list list"

text \<open>
  Lines 108 to 214: the \<^verbatim>\<open>if predict_btn:\<close> branch and the dataset preview after it.
  An exception from \<^verbatim>\<open>model.predict\<close> or from the indexing ends the run before anything
  of the branch is drawn.
\<close>

definition renderer :: "model \<Rightarrow> dataset \<Rightarrow> int \<Rightarrow> int \<Rightarrow> bool \<Rightarrow> rendering" where
  "renderer m data age experience predict_btn =
     (if predict_btn then
        (case prediction m age experience of
           Inl e \<Rightarrow>
             \<lparr>elements = [], status = Uncaught e,
              model_calls = [input_data age experience]\<rparr>
         | Inr pred \<Rightarrow>
             \<lparr>elements = prediction_section data age experience pred @ dataset_overview data,
              status = Completed,
              model_calls = [input_data age experience]\<rparr>)
      else
        \<lparr>elements = dataset_overview data, status = Completed, model_calls = []\<rparr>)"

subsection \<open>The script\<close>

text \<open>
  One run of \<^verbatim>\<open>app1.py\<close>: the style sheet, the load block with its handler, the header,
  the sidebar, the main content and the footer. The run returns what it drew and the
  process state it leaves.
\<close>

definition error_message :: "exn \<Rightarrow> string" where
  "error_message e = (case e of Exn msg \<Rightarrow> ''Error loading resources: '' @ msg)"

definition app :: "environment \<Rightarrow> ui \<Rightarrow> process \<Rightarrow> rendering \<times> process" where
  "app env u p =
     (case load_resources env p of
        (Inl e, p') \<Rightarrow>
          (\<lparr>elements = [Style_Block, Error_Box (error_message e)],
            status = Stopped, model_calls = []\<rparr>, p')
      | (Inr (model_obj, data_obj), p') \<Rightarrow>
          (let data = snd data_obj;
               age = snd (age_control u);
               experience = snd (experience_control u);
               predict_btn = predict_clicked u;
               top = [Style_Block, Header_Block, Intro_Block] @ sidebar u data;
               r = renderer (snd model_obj) data age experience predict_btn
           in (\<lparr>elements = top @ elements r @
                   (if status r = Completed then [Footer_Block] else []),
                status = status r,
                model_calls = model_calls r\<rparr>, p')))"

subsection \<open>The scenario of the spec\<close>

text \<open>
  The two-row dataset and the stub model of the end-to-end scenario, as the content of
  the two files, and a process that has loaded nothing yet.
\<close>

definition two_rows :: dataset where
  "two_rows =
     [\<lparr>Age = Some 25, Year_of_Experience = Some 2, Current_Salary = Some 40000\<rparr>,
      \<lparr>Age = Some 40, Year_of_Experience = Some 15, Current_Salary = Some 90000\<rparr>]"

definition stub_model :: model where
  "stub_model = fitted_regressor (\<lambda>age experience.
     10000 + 2000 * real_of_int experience + 500 * real_of_int age)"

definition scenario_env :: environment where
  "scenario_env =
     \<lparr>joblib_load = (\<lambda>path. if path = model_path then Inr stub_model
                              else Inl (Exn ''No such file'')),
      read_excel = (\<lambda>path. if path = data_path then Inr two_rows
                             else Inl (Exn ''No such file''))\<rparr>"

definition fresh_process :: process where
  "fresh_process =
     \<lparr>resource_cache = None, data_cache = None, next_ref = 0, file_reads = []\<rparr>"

subsection \<open>Recognisers used in the statements\<close>

definition is_digit :: "char \<Rightarrow> bool" where
  "is_digit c = (c \<in> set ''0123456789'')"

text \<open>
  Read from the right, every fourth character is a comma and every other one a digit.
\<close>

fun grouped_rev :: "nat \<Rightarrow> string \<Rightarrow> bool" where
  "grouped_rev k [] = True"
| "grouped_rev k (c # cs) =
     ((if k mod 4 = 3 then c = CHR '','' else is_digit c) \<and> grouped_rev (Suc k) cs)"

definition well_grouped :: "string \<Rightarrow> bool" where
  "well_grouped s = (s \<noteq> [] \<and> is_digit (hd s) \<and> grouped_rev 0 (rev s))"



text \<open>The frame of the page that every run draws before the main content.\<close>

definition page_top :: "ui \<Rightarrow> dataset \<Rightarrow> element list" where
  "page_top u data = [Style_Block, Header_Block, Intro_Block] @ sidebar u data"

text \<open>A spreadsheet whose salaries have the mean zero.\<close>

definition zero_mean_rows :: dataset where
  "zero_mean_rows =
     [\<lparr>Age = Some 25, Year_of_Experience = Some 2, Current_Salary = Some (- 1000)\<rparr>,
      \<lparr>Age = Some 40, Year_of_Experience = Some 15, Current_Salary = Some 1000\<rparr>]"

definition scenario_ui :: ui where
  "scenario_ui = \<lparr>age_slider = Some 30, experience_slider = Some 5, predict_clicked = True\<rparr>"



text \<open>A deployment without the model file.\<close>

definition missing_model_env :: environment where
  "missing_model_env =
     \<lparr>joblib_load = (\<lambda>path. Inl (Exn ''No such file or directory'')),
      read_excel = (\<lambda>path. if path = data_path then Inr two_rows
                             else Inl (Exn ''No such file or directory''))\<rparr>"

section \<open>Properties\<close>

subsection \<open>Digits and grouping\<close>

lemma digit_char_is_digit: "d < 10 \<Longrightarrow> is_digit (digit_char d)"
proof -
  assume "d < 10"
  then have "d \<in> {0, 1, 2, 3, 4, 5, 6, 7, 8, 9}" by auto
  then show ?thesis by (auto simp: is_digit_def digit_char_def)
qed

lemma digits10_digits: "list_all is_digit (digits10 n)"
proof (induction n rule: digits10.induct)
  case (1 n)
  show ?case
  proof (cases "n < 10")
    case True
    then show ?thesis by (subst digits10.simps) (simp add: digit_char_is_digit)
  next
    case False
    with 1 show ?thesis by (subst digits10.simps) (simp add: digit_char_is_digit)
  qed
qed

lemma digits10_not_Nil: "digits10 n \<noteq> []"
  by (subst digits10.simps) simp

lemma length_digits10_small: "n < 10 ^ k \<Longrightarrow> 0 < k \<Longrightarrow> length (digits10 n) \<le> k"
proof (induction n arbitrary: k rule: digits10.induct)
  case (1 n)
  show ?case
  proof (cases "n < 10")
    case True
    with 1 show ?thesis by (subst digits10.simps) simp
  next
    case False
    obtain j where k: "k = Suc j" using 1(3) by (cases k) auto
    from False 1(2) k have "0 < j" by (cases j) auto
    moreover from 1(2) k have "n div 10 < 10 ^ j" by (simp add: less_mult_imp_div_less mult.commute)
    ultimately have "length (digits10 (n div 10)) \<le> j" using 1(1)[OF False] by blast
    with False k show ?thesis by (subst digits10.simps) simp
  qed
qed

lemma zero_pad_length: "length ds \<le> w \<Longrightarrow> length (zero_pad w ds) = w"
  by (simp add: zero_pad_def)

lemma zero_pad_digits: "list_all is_digit ds \<Longrightarrow> list_all is_digit (zero_pad w ds)"
proof -
  assume ds: "list_all is_digit ds"
  have "is_digit CHR ''0''" by (simp add: is_digit_def)
  then have "list_all is_digit (replicate (w - length ds) CHR ''0'')"
    by (simp add: list_all_iff)
  with ds show ?thesis by (simp add: zero_pad_def)
qed

lemma mod4_steps:
  assumes "k mod 4 = (0::nat)"
  shows "Suc k mod 4 = 1" and "Suc (Suc k) mod 4 = 2" and "Suc (Suc (Suc k)) mod 4 = 3"
    and "Suc (Suc (Suc (Suc k))) mod 4 = 0"
  using assms by presburger+

lemma grouped_rev_commas:
  "list_all is_digit r \<Longrightarrow> k mod 4 = 0 \<Longrightarrow> grouped_rev k (commas_rev r)"
proof (induction r arbitrary: k rule: commas_rev.induct)
  case (1 a b c d rest)
  note m = mod4_steps [OF 1(3)]
  have "grouped_rev (Suc (Suc (Suc (Suc k)))) (commas_rev (d # rest))"
    using 1 m by simp
  with 1(2,3) m show ?case by simp
qed (simp_all add: mod4_steps)

lemma commas_rev_not_Nil: "r \<noteq> [] \<Longrightarrow> commas_rev r \<noteq> []"
  by (induction r rule: commas_rev.induct) auto

lemma last_commas_rev: "r \<noteq> [] \<Longrightarrow> last (commas_rev r) = last r"
  by (induction r rule: commas_rev.induct) (auto simp: commas_rev_not_Nil)

lemma well_grouped_thousands:
  assumes "ds \<noteq> []" "list_all is_digit ds"
  shows "well_grouped (thousands ds)"
proof -
  have "hd (thousands ds) = last (commas_rev (rev ds))"
    using assms(1) by (simp add: thousands_def hd_rev commas_rev_not_Nil)
  also have "\<dots> = hd ds" using assms(1) by (simp add: last_commas_rev last_rev)
  finally have "is_digit (hd (thousands ds))" using assms by (cases ds) auto
  moreover have "grouped_rev 0 (commas_rev (rev ds))"
    using assms(2) by (intro grouped_rev_commas) simp_all
  ultimately show ?thesis using assms(1) by (simp add: well_grouped_def thousands_def commas_rev_not_Nil)
qed

lemma filter_commas_rev:
  "list_all is_digit r \<Longrightarrow> filter (\<lambda>c. c \<noteq> CHR '','') (commas_rev r) = r"
  by (induction r rule: commas_rev.induct) (auto simp: is_digit_def)

lemmas fmt_eval = currency_def percent_text_def round_half_even_def thousands_def zero_pad_def
  sign_text_def digits10.simps digit_char_def Let_def

subsection \<open>Currency texts\<close>

text \<open>
  Claim C7. The currency text of a finite value is a dollar sign, a minus sign when the
  value is negative, the integer digits grouped in threes by commas, a point and exactly
  two decimal digits. The value 1234567.8 gives \<^verbatim>\<open>$1,234,567.80\<close>. The prediction card
  and the three currency metrics of the script are all written by this function.
\<close>

theorem currency_format:
  "(\<exists>ip fp. currency (Fin x) = ''$'' @ (if x < 0 then ''-'' else '''') @ ip @ ''.'' @ fp \<and>
       well_grouped ip \<and> length fp = 2 \<and> list_all is_digit fp) \<and>
   currency (Fin 1234567.8) = ''$1,234,567.80''"
proof
  define n where "n = nat (round_half_even (\<bar>x\<bar> * 10 ^ 2))"
  define ip where "ip = thousands (digits10 (n div 10 ^ 2))"
  define fp where "fp = zero_pad 2 (digits10 (n mod 10 ^ 2))"
  have "currency (Fin x) = ''$'' @ (if x < 0 then ''-'' else '''') @ ip @ ''.'' @ fp"
    by (simp add: currency_def n_def ip_def fp_def sign_text_def Let_def)
  moreover have "well_grouped ip"
    unfolding ip_def by (rule well_grouped_thousands) (simp_all add: digits10_not_Nil digits10_digits)
  moreover have "length (digits10 (n mod 10 ^ 2)) \<le> 2"
    by (rule length_digits10_small) simp_all
  then have "length fp = 2" unfolding fp_def by (rule zero_pad_length)
  moreover have "list_all is_digit fp"
    unfolding fp_def by (rule zero_pad_digits) (rule digits10_digits)
  ultimately show "\<exists>ip fp. currency (Fin x) = ''$'' @ (if x < 0 then ''-'' else '''') @ ip @ ''.'' @ fp \<and>
       well_grouped ip \<and> length fp = 2 \<and> list_all is_digit fp" by blast
next
  show "currency (Fin 1234567.8) = ''$1,234,567.80''"
    by (simp add: fmt_eval)
qed

subsection \<open>The end-to-end scenario\<close>

lemma scenario_load:
  "load_resources scenario_env fresh_process =
     (Inr ((0, stub_model), (1, two_rows)),
      \<lparr>resource_cache = Some (0, stub_model), data_cache = Some two_rows, next_ref = 2,
       file_reads = [model_path, data_path]\<rparr>)"
  by (simp add: load_resources_def load_model_def load_data_def scenario_env_def fresh_process_def)

lemma scenario_prediction: "prediction stub_model 30 5 = Inr (Fin 35000)"
  by (simp add: prediction_def input_data_def stub_model_def fitted_regressor_def)

lemma scenario_mean: "series_mean (salary_column two_rows) = Fin 65000"
  by (simp add: series_mean_def salary_column_def present_def two_rows_def)

lemma scenario_percent: "diff_percent (Fin 35000) two_rows = Fin ((35000 - 65000) / 65000 * 100)"
  by (simp add: diff_percent_def scenario_mean)

text \<open>
  Claim C8. With the two-row dataset, age 30, experience 5 and the stub model
  \<open>10000 + 2000 * experience + 500 * age\<close>, a run with the button pressed completes; the
  prediction is 35000, the card and the ``Predicted Salary'' metric show
  \<^verbatim>\<open>$35,000.00\<close>, the mean salary is 65000, the deviation is
  \<open>(35000 - 65000) / 65000 * 100\<close> and the ``Vs Mean'' metric shows \<^verbatim>\<open>-46.2%\<close>.
\<close>

theorem end_to_end_scenario:
  "prediction stub_model 30 5 = Inr (Fin 35000) \<and>
   series_mean (salary_column two_rows) = Fin 65000 \<and>
   diff_percent (Fin 35000) two_rows = Fin ((35000 - 65000) / 65000 * 100) \<and>
   status (fst (app scenario_env scenario_ui fresh_process)) = Completed \<and>
   Prediction_Card ''$35,000.00'' 30 5 \<in> set (elements (fst (app scenario_env scenario_ui fresh_process))) \<and>
   Metric ''Predicted Salary'' (Text ''$35,000.00'')
     \<in> set (elements (fst (app scenario_env scenario_ui fresh_process))) \<and>
   Metric ''Vs Mean'' (Text ''-46.2%'')
     \<in> set (elements (fst (app scenario_env scenario_ui fresh_process)))"
proof -
  have card: "currency (Fin 35000) = ''$35,000.00''"
    by (simp add: fmt_eval)
  have pct: "percent_text (diff_percent (Fin 35000) two_rows) = ''-46.2%''"
    by (simp add: scenario_percent fmt_eval)
  have run: "elements (fst (app scenario_env scenario_ui fresh_process)) =
      page_top scenario_ui two_rows @ prediction_section two_rows 30 5 (Fin 35000) @
      dataset_overview two_rows @ [Footer_Block]"
    "status (fst (app scenario_env scenario_ui fresh_process)) = Completed"
    by (simp_all add: app_def scenario_load renderer_def scenario_prediction page_top_def
        age_control_def experience_control_def st_slider_def scenario_ui_def Let_def)
  have shown: "Prediction_Card ''$35,000.00'' 30 5
        \<in> set (prediction_section two_rows 30 5 (Fin 35000))"
    "Metric ''Predicted Salary'' (Text ''$35,000.00'')
        \<in> set (prediction_section two_rows 30 5 (Fin 35000))"
    "Metric ''Vs Mean'' (Text ''-46.2%'') \<in> set (prediction_section two_rows 30 5 (Fin 35000))"
    by (simp_all add: prediction_section_def card pct)
  from shown show ?thesis
    by (simp add: run scenario_prediction scenario_mean scenario_percent)
qed

subsection \<open>The deviation from the mean\<close>




lemma zero_mean: "series_mean (salary_column zero_mean_rows) = Fin 0"
  by (simp add: series_mean_def salary_column_def present_def zero_mean_rows_def)

text \<open>
  Claim C3, as stated, fails: the script has no fallback for a mean of zero. With the
  mean zero the step yields the quotient that numpy computes, an infinity for the
  prediction 35000 and NaN for the prediction 0, and the metric shows \<^verbatim>\<open>+inf%\<close> and
  \<^verbatim>\<open>+nan%\<close>: two different texts, neither of them a designated not-applicable result.
\<close>

theorem zero_mean_counterexample:
  "series_mean (salary_column zero_mean_rows) = Fin 0 \<and>
   diff_percent (Fin 35000) zero_mean_rows = PInf \<and>
   percent_text (diff_percent (Fin 35000) zero_mean_rows) = ''+inf%'' \<and>
   diff_percent (Fin 0) zero_mean_rows = NaN \<and>
   percent_text (diff_percent (Fin 0) zero_mean_rows) = ''+nan%'' \<and>
   percent_text (diff_percent (Fin 35000) zero_mean_rows) \<noteq>
     percent_text (diff_percent (Fin 0) zero_mean_rows)"
  by (simp add: diff_percent_def zero_mean percent_text_def sign_text_def)

text \<open>
  Claim C3, amended. When the mean salary is zero the step does not raise; it performs
  the unguarded division: the result is NaN for the prediction zero or NaN, the positive
  infinity for a positive prediction and the negative infinity for a negative one, and
  the metric shows \<^verbatim>\<open>+nan%\<close>, \<^verbatim>\<open>+inf%\<close> or \<^verbatim>\<open>-inf%\<close>.
\<close>

theorem zero_mean_division:
  assumes "series_mean (salary_column data) = Fin 0"
  shows "diff_percent pred data =
      (case pred of Fin p \<Rightarrow> (if p = 0 then NaN else if 0 < p then PInf else NInf) | other \<Rightarrow> other) \<and>
    percent_text (diff_percent pred data) =
      (case pred of
         Fin p \<Rightarrow> (if p = 0 then ''+nan%'' else if 0 < p then ''+inf%'' else ''-inf%'')
       | PInf \<Rightarrow> ''+inf%'' | NInf \<Rightarrow> ''-inf%'' | NaN \<Rightarrow> ''+nan%'')"
  using assms by (cases pred) (simp_all add: diff_percent_def percent_text_def sign_text_def)

theorem zero_mean_division_witness:
  "series_mean (salary_column zero_mean_rows) = Fin 0 \<and>
   diff_percent (Fin (- 5)) zero_mean_rows = NInf \<and>
   percent_text (diff_percent (Fin (- 5)) zero_mean_rows) = ''-inf%''"
proof -
  note t = zero_mean_division [OF zero_mean, of "Fin (- 5)"]
  have "diff_percent (Fin (- 5)) zero_mean_rows = NInf"
    using t [THEN conjunct1] by simp
  moreover have "percent_text (diff_percent (Fin (- 5)) zero_mean_rows) = ''-inf%''"
    using t [THEN conjunct2] by simp
  ultimately show ?thesis using zero_mean by blast
qed

subsection \<open>The prediction\<close>

text \<open>
  Claim C1. A run with the button pressed calls \<^verbatim>\<open>model.predict\<close> once, on the single row
  \<open>[age, experience]\<close>, age first; the prediction is the first element of what the model
  returns. For the regressor as the spec describes it, the model returns exactly one
  value for every age and experience (so for all of the sliders' domains), the value is
  finite, and it is the prediction.
\<close>

theorem prediction_of_model:
  "model_calls (renderer m data age experience True) = [[[age, experience]]] \<and>
   (m [[age, experience]] = Inr (y # ys) \<longrightarrow> prediction m age experience = Inr y) \<and>
   (\<exists>v. fitted_regressor f [[age, experience]] = Inr [v] \<and> is_finite v \<and>
        prediction (fitted_regressor f) age experience = Inr v)"
proof (intro conjI)
  show "model_calls (renderer m data age experience True) = [[[age, experience]]]"
    by (simp add: renderer_def input_data_def split: sum.split)
  show "m [[age, experience]] = Inr (y # ys) \<longrightarrow> prediction m age experience = Inr y"
    by (simp add: prediction_def input_data_def)
  have "fitted_regressor f [[age, experience]] = Inr [Fin (f age experience)]"
    by (simp add: fitted_regressor_def)
  then show "\<exists>v. fitted_regressor f [[age, experience]] = Inr [v] \<and> is_finite v \<and>
        prediction (fitted_regressor f) age experience = Inr v"
    by (simp add: prediction_def input_data_def)
qed

theorem prediction_of_model_witness:
  "stub_model [[30, 5]] = Inr [Fin 35000] \<and> prediction stub_model 30 5 = Inr (Fin 35000)"
proof -
  have out: "stub_model [[30, 5]] = Inr (Fin 35000 # [])"
    by (simp add: stub_model_def fitted_regressor_def)
  from prediction_of_model [of stub_model two_rows 30 5 "Fin 35000" "[]"] out
  have "prediction stub_model 30 5 = Inr (Fin 35000)" by blast
  with out show ?thesis by simp
qed

subsection \<open>The input controls\<close>



subsection \<open>The caches\<close>

text \<open>
  Claim C4, as stated, fails for the dataset: \<^verbatim>\<open>load_data\<close> is cached with
  \<^verbatim>\<open>st.cache_data\<close>, which hands out copies. Two calls in a fresh process return the objects
  0 and 1, equal in content and not the same instance.
\<close>

theorem data_copy_counterexample:
  "fst (load_data scenario_env fresh_process) = Inr (0, two_rows) \<and>
   fst (load_data scenario_env (snd (load_data scenario_env fresh_process))) = Inr (1, two_rows)"
  by (simp add: load_data_def scenario_env_def fresh_process_def)

text \<open>
  Claim C4, amended. A second call of \<^verbatim>\<open>load_model\<close> returns the same object as the first
  and reads no file. A second call of \<^verbatim>\<open>load_data\<close> returns a new object with the same
  content as the first and reads no file.
\<close>

theorem cached_loaders:
  "(fst (load_model env p) = Inr obj \<longrightarrow>
      fst (load_model env (snd (load_model env p))) = Inr obj \<and>
      file_reads (snd (load_model env (snd (load_model env p)))) =
        file_reads (snd (load_model env p))) \<and>
   (fst (load_data env p) = Inr (r, d) \<longrightarrow>
      fst (load_data env (snd (load_data env p))) = Inr (Suc r, d) \<and>
      file_reads (snd (load_data env (snd (load_data env p)))) =
        file_reads (snd (load_data env p)))"
  by (auto simp: load_model_def load_data_def split: option.splits sum.splits)

theorem cached_loaders_witness:
  "fst (load_model scenario_env fresh_process) = Inr (0, stub_model) \<and>
   fst (load_model scenario_env (snd (load_model scenario_env fresh_process))) =
     Inr (0, stub_model) \<and>
   file_reads (snd (load_model scenario_env (snd (load_model scenario_env fresh_process)))) =
     [model_path] \<and>
   fst (load_data scenario_env fresh_process) = Inr (0, two_rows) \<and>
   fst (load_data scenario_env (snd (load_data scenario_env fresh_process))) =
     Inr (Suc 0, two_rows) \<and>
   file_reads (snd (load_data scenario_env (snd (load_data scenario_env fresh_process)))) =
     [data_path]"
proof -
  have m: "fst (load_model scenario_env fresh_process) = Inr (0, stub_model)"
    "file_reads (snd (load_model scenario_env fresh_process)) = [model_path]"
    by (simp_all add: load_model_def scenario_env_def fresh_process_def)
  have d: "fst (load_data scenario_env fresh_process) = Inr (0, two_rows)"
    "file_reads (snd (load_data scenario_env fresh_process)) = [data_path]"
    by (simp_all add: load_data_def scenario_env_def fresh_process_def)
  from cached_loaders [of scenario_env fresh_process "(0, stub_model)" 0 two_rows] m d
  show ?thesis by simp
qed

subsection \<open>What a run draws\<close>

lemma app_loaded:
  assumes "load_resources env p = (Inr ((rm, m), (rd, data)), p')"
  shows "elements (fst (app env u p)) =
      page_top u data @
      elements (renderer m data (snd (age_control u)) (snd (experience_control u)) (predict_clicked u)) @
      (if status (renderer m data (snd (age_control u)) (snd (experience_control u)) (predict_clicked u)) = Completed
       then [Footer_Block] else [])"
    and "status (fst (app env u p)) =
      status (renderer m data (snd (age_control u)) (snd (experience_control u)) (predict_clicked u))"
    and "model_calls (fst (app env u p)) =
      model_calls (renderer m data (snd (age_control u)) (snd (experience_control u)) (predict_clicked u))"
    and "snd (app env u p) = p'"
  using assms by (simp_all add: app_def page_top_def Let_def)







subsection \<open>A failed load\<close>

lemma load_resources_Inl:
  assumes "fst (load_model env p) = Inl e \<or>
     (\<exists>obj. fst (load_model env p) = Inr obj \<and>
        fst (load_data env (snd (load_model env p))) = Inl e)"
  shows "fst (load_resources env p) = Inl e"
  using assms by (auto simp: load_resources_def split: prod.splits sum.splits)

lemma load_model_reads:
  "file_reads (snd (load_model env p)) = file_reads p \<or>
   file_reads (snd (load_model env p)) = file_reads p @ [model_path]"
  by (simp add: load_model_def split: option.split sum.split)

lemma load_data_reads:
  "file_reads (snd (load_data env p)) = file_reads p \<or>
   file_reads (snd (load_data env p)) = file_reads p @ [data_path]"
  by (simp add: load_data_def split: option.split sum.split)

lemma load_resources_reads:
  "\<exists>new. file_reads (snd (load_resources env p)) = file_reads p @ new \<and>
     new \<in> {[], [model_path], [data_path], [model_path, data_path]}"
proof (cases "load_model env p")
  case (Pair r1 p1)
  note m = load_model_reads [of env p]
  show ?thesis
  proof (cases r1)
    case (Inl e)
    with Pair m show ?thesis by (auto simp: load_resources_def)
  next
    case (Inr obj)
    obtain r2 p2 where d: "load_data env p1 = (r2, p2)" by (cases "load_data env p1")
    have "snd (load_resources env p) = p2"
      using Pair Inr d by (cases r2) (simp_all add: load_resources_def)
    moreover note load_data_reads [of env p1]
    ultimately show ?thesis using Pair m d by auto
  qed
qed

text \<open>
  Claim C6. When \<^verbatim>\<open>load_model\<close> raises, or \<^verbatim>\<open>load_model\<close> returns and \<^verbatim>\<open>load_data\<close> raises,
  the run draws the style sheet and the error box with the exception's message and stops:
  nothing of the page follows, the model is not called, and the run read each of the two
  files at most once, so nothing was tried again and nothing was loaded in its place.
\<close>

theorem load_failure_is_fatal:
  assumes "fst (load_model env p) = Inl e \<or>
     (\<exists>obj. fst (load_model env p) = Inr obj \<and>
        fst (load_data env (snd (load_model env p))) = Inl e)"
  shows "elements (fst (app env u p)) = [Style_Block, Error_Box (error_message e)] \<and>
    status (fst (app env u p)) = Stopped \<and>
    model_calls (fst (app env u p)) = [] \<and>
    (\<exists>new. file_reads (snd (app env u p)) = file_reads p @ new \<and> distinct new \<and>
       set new \<subseteq> {model_path, data_path})"
proof -
  obtain p' where l: "load_resources env p = (Inl e, p')"
    using load_resources_Inl [OF assms] by (cases "load_resources env p") simp
  then have run: "app env u p =
      (\<lparr>elements = [Style_Block, Error_Box (error_message e)], status = Stopped,
        model_calls = []\<rparr>, p')"
    by (simp add: app_def)
  have ne: "model_path \<noteq> data_path" by (simp add: model_path_def data_path_def)
  from load_resources_reads [of env p] l
  obtain new where "file_reads p' = file_reads p @ new"
    "new \<in> {[], [model_path], [data_path], [model_path, data_path]}" by auto
  with ne have "file_reads p' = file_reads p @ new \<and> distinct new \<and>
      set new \<subseteq> {model_path, data_path}" by auto
  with run show ?thesis by auto
qed

theorem load_failure_is_fatal_witness:
  "fst (load_model missing_model_env fresh_process) = Inl (Exn ''No such file or directory'') \<and>
   elements (fst (app missing_model_env scenario_ui fresh_process)) =
     [Style_Block, Error_Box ''Error loading resources: No such file or directory''] \<and>
   status (fst (app missing_model_env scenario_ui fresh_process)) = Stopped \<and>
   model_calls (fst (app missing_model_env scenario_ui fresh_process)) = []"
proof -
  have f: "fst (load_model missing_model_env fresh_process) = Inl (Exn ''No such file or directory'')"
    by (simp add: load_model_def missing_model_env_def fresh_process_def)
  have msg: "error_message (Exn ''No such file or directory'') =
      ''Error loading resources: No such file or directory''"
    by (simp add: error_message_def)
  from load_failure_is_fatal [OF disjI1, OF f, of scenario_ui] f msg
  show ?thesis by simp
qed

subsection \<open>One prediction per run\<close>

text \<open>
  Claim C10. In a run with the button pressed, \<^verbatim>\<open>model.predict\<close> is called exactly once, and
  the value it gave is the one shown everywhere: the amount of every prediction card, the
  height of the overlaid point of every chart (both charts are there), the value of the
  ``Predicted Salary'' metric, and the minuend in the numerator of the ``Vs Mean'' metric.
\<close>

theorem one_prediction_everywhere:
  assumes "load_resources env p = (Inr ((rm, m), (rd, data)), p')"
    and "predict_clicked u"
    and "age = snd (age_control u)" and "experience = snd (experience_control u)"
    and "prediction m age experience = Inr y"
    and "els = elements (fst (app env u p))"
    and "mean = series_mean (salary_column data)"
  shows "model_calls (fst (app env u p)) = [[[age, experience]]] \<and>
    Prediction_Card (currency y) age experience \<in> set els \<and>
    (\<forall>t a x. Prediction_Card t a x \<in> set els \<longrightarrow> t = currency y) \<and>
    Plotly_Chart (fig1 data experience y) \<in> set els \<and>
    Plotly_Chart (fig2 data age y) \<in> set els \<and>
    (\<forall>fig. Plotly_Chart fig \<in> set els \<longrightarrow> overlay_y fig = y) \<and>
    Metric ''Predicted Salary'' (Text (currency y)) \<in> set els \<and>
    (\<forall>v. Metric ''Predicted Salary'' v \<in> set els \<longrightarrow> v = Text (currency y)) \<and>
    Metric ''Vs Mean'' (Text (percent_text (fmul (fdiv (fsub y mean) mean) (Fin 100)))) \<in> set els \<and>
    (\<forall>v. Metric ''Vs Mean'' v \<in> set els \<longrightarrow>
       v = Text (percent_text (fmul (fdiv (fsub y mean) mean) (Fin 100))))"
proof -
  have els: "els = page_top u data @ prediction_section data age experience y @
      dataset_overview data @ [Footer_Block]"
    using assms(2,5) by (simp add: assms(6) app_loaded [OF assms(1)] renderer_def assms(3,4) [symmetric])
  have calls: "model_calls (fst (app env u p)) = [[[age, experience]]]"
    using assms(2,5)
    by (simp add: app_loaded [OF assms(1)] renderer_def input_data_def assms(3,4) [symmetric])
  have top: "set (page_top u data) =
      {Style_Block, Header_Block, Intro_Block, Markdown ''## Employee Details'',
       Markdown ''### Basic Information'', Slider ''**Age**'' 18 65 30,
       Slider ''**Years of Experience**'' 0 50 5, Markdown ''---'',
       Markdown ''### Model Information'',
       Metric ''Training Samples'' (Text (format_int_grouped (int (length data)))),
       Metric ''Features'' (Text ''2 (Age, Experience)''), Button ''Predict Salary''}"
    by (auto simp: page_top_def sidebar_def age_control_def experience_control_def st_slider_def)
  have sec: "set (prediction_section data age experience y) =
      {Prediction_Card (currency y) age experience, Markdown ''---'',
       Subheader ''Salary Distribution'', Plotly_Chart (fig1 data experience y),
       Subheader ''Age vs Salary'', Plotly_Chart (fig2 data age y),
       Subheader ''Quick Statistics'',
       Metric ''Dataset Mean Salary'' (Text (currency mean)),
       Metric ''Dataset Max Salary'' (Text (currency (series_max (salary_column data)))),
       Metric ''Predicted Salary'' (Text (currency y)),
       Metric ''Vs Mean'' (Text (percent_text (fmul (fdiv (fsub y mean) mean) (Fin 100))))}"
    by (auto simp: prediction_section_def diff_percent_def assms(7))
  have over: "set (dataset_overview data) =
      {Markdown ''---'', Expander ''Dataset Overview'',
       Tabs [''Preview'', ''Statistics'', ''Data Info''], Subheader ''First 10 Records'',
       Dataframe (head 10 data), Subheader ''Statistical Summary'', Dataframe (Describe data),
       Subheader ''Dataset Information'', Metric ''Total Records'' (Number (int (length data))),
       Metric ''Columns'' (Number 3), Metric ''Data Types'' (Dtype_List data),
       Metric ''Missing Values'' (Number (int (null_count data)))}"
    by (auto simp: dataset_overview_def)
  have all: "set els = set (page_top u data) \<union> set (prediction_section data age experience y) \<union>
      set (dataset_overview data) \<union> {Footer_Block}"
    by (simp add: els Un_assoc)
  have ov: "overlay_y (fig1 data experience y) = y" "overlay_y (fig2 data age y) = y"
    by (simp_all add: fig1_def fig2_def)
  show ?thesis
    unfolding all top sec over using calls ov by auto
qed


theorem one_prediction_everywhere_witness:
  "predict_clicked scenario_ui \<and>
   prediction stub_model 30 5 = Inr (Fin 35000) \<and>
   model_calls (fst (app scenario_env scenario_ui fresh_process)) = [[[30, 5]]] \<and>
   Prediction_Card (currency (Fin 35000)) 30 5
     \<in> set (elements (fst (app scenario_env scenario_ui fresh_process))) \<and>
   Plotly_Chart (fig1 two_rows 5 (Fin 35000))
     \<in> set (elements (fst (app scenario_env scenario_ui fresh_process))) \<and>
   Plotly_Chart (fig2 two_rows 30 (Fin 35000))
     \<in> set (elements (fst (app scenario_env scenario_ui fresh_process))) \<and>
   Metric ''Predicted Salary'' (Text (currency (Fin 35000)))
     \<in> set (elements (fst (app scenario_env scenario_ui fresh_process)))"
proof -
  have on: "predict_clicked scenario_ui" by (simp add: scenario_ui_def)
  have a: "30 = snd (age_control scenario_ui)" "5 = snd (experience_control scenario_ui)"
    by (simp_all add: age_control_def experience_control_def st_slider_def scenario_ui_def)
  note t = one_prediction_everywhere [OF scenario_load on a scenario_prediction refl refl]
  from t on scenario_prediction show ?thesis by blast
qed

end
